theory Spec2Isabelle
  imports Complex_Main
begin

section \<open>Python values, exceptions and arithmetic\<close>

text \<open>
  The source is \<^verbatim>\<open>src/autocrop/autocrop.py\<close>. The module opens with
  \<^verbatim>\<open>from __future__ import division\<close>, so every \<^verbatim>\<open>/\<close> is true division, and the code then
  truncates with \<^verbatim>\<open>int(...)\<close>. Quotients and products are taken exactly, in the rationals,
  and \<^verbatim>\<open>int\<close> truncates towards zero: for integer operands below \<open>2 ^ 53\<close> in magnitude the
  double-precision quotient truncates to the same integer as the exact one. Pixel
  coordinates are unbounded integers.
\<close>

datatype error =
    ValueError
  | TypeError
  | NameError string
  | KeyError string
  | AssertionError
  | ZeroDivisionError
  | OSError
  | ImageReadError

datatype pyclass = BaseException_class | Exception_class

text \<open>
  \<^verbatim>\<open>class ImageReadError(BaseException)\<close> (line 25); the other exceptions are built-in
  classes below \<^verbatim>\<open>Exception\<close>.
\<close>

fun error_superclass :: "error \<Rightarrow> pyclass" where
  "error_superclass ImageReadError = BaseException_class"
| "error_superclass ValueError = Exception_class"
| "error_superclass TypeError = Exception_class"
| "error_superclass (NameError n) = Exception_class"
| "error_superclass (KeyError k) = Exception_class"
| "error_superclass AssertionError = Exception_class"
| "error_superclass ZeroDivisionError = Exception_class"
| "error_superclass OSError = Exception_class"

definition caught_by_except_Exception :: "error \<Rightarrow> bool" where
  "caught_by_except_Exception e = (error_superclass e = Exception_class)"

definition bindE :: "error + 'a \<Rightarrow> ('a \<Rightarrow> error + 'b) \<Rightarrow> error + 'b" where
  "bindE m f = (case m of Inl e \<Rightarrow> Inl e | Inr v \<Rightarrow> f v)"

text \<open>\<^verbatim>\<open>int(q)\<close> on a float: truncation towards zero.\<close>

definition py_int :: "rat \<Rightarrow> int" where
  "py_int q = (if 0 \<le> q then \<lfloor>q\<rfloor> else \<lceil>q\<rceil>)"

text \<open>\<^verbatim>\<open>a / b\<close>: raises \<^verbatim>\<open>ZeroDivisionError\<close> when the divisor is zero.\<close>

definition fdiv :: "rat \<Rightarrow> rat \<Rightarrow> error + rat" where
  "fdiv a b = (if b = 0 then Inl ZeroDivisionError else Inr (a / b))"

section \<open>Configuration: the \<^verbatim>\<open>Cropper\<close> instance\<close>

record Cropper =
  height :: int
  width :: int
  aspect_ratio :: rat
  gamma :: bool
  portrait :: bool
  face_percent :: int
  pad_top :: int
  pad_right :: int
  pad_bottom :: int
  pad_left :: int
  casc_path :: string

text \<open>
  The \<^verbatim>\<open>padding\<close> argument of the constructor: \<^verbatim>\<open>None\<close> (the default of the signature),
  an integer, or a dictionary from strings to integers, kept as an association list in
  insertion order with distinct keys.
\<close>

datatype padding_arg = PadNone | PadInt int | PadDict "(string \<times> int) list"

text \<open>
  \<^verbatim>\<open>check_positive_scalar\<close> (lines 54-58) on an integer argument.
\<close>

definition check_positive_scalar :: "int \<Rightarrow> error + int" where
  "check_positive_scalar num = (if num > 0 then Inr num else Inl ValueError)"

text \<open>
  \<^verbatim>\<open>all(check_positive_scalar(n) for n in dic.values())\<close> (line 76): the generator stops
  at the first falsy value, and an exception of \<^verbatim>\<open>check_positive_scalar\<close> leaves it.
\<close>

fun all_check_positive_scalar :: "int list \<Rightarrow> error + bool" where
  "all_check_positive_scalar [] = Inr True"
| "all_check_positive_scalar (n # ns) =
     (case check_positive_scalar n of
        Inl e \<Rightarrow> Inl e
      | Inr v \<Rightarrow> if v \<noteq> 0 then all_check_positive_scalar ns else Inr False)"

definition valid_keys :: "string set" where
  "valid_keys = {''pad_top'', ''pad_right'', ''pad_bottom'', ''pad_left''}"

text \<open>
  \<^verbatim>\<open>check_valid_pad_dict\<close> (lines 61-79). The four conditions are computed in order before
  any is tested: \<^verbatim>\<open>len(dic)\<close> raises \<^verbatim>\<open>TypeError\<close> on \<^verbatim>\<open>None\<close> and on an integer.
\<close>

fun check_valid_pad_dict :: "padding_arg \<Rightarrow> error + (string \<times> int) list" where
  "check_valid_pad_dict PadNone = Inl TypeError"
| "check_valid_pad_dict (PadInt n) = Inl TypeError"
| "check_valid_pad_dict (PadDict dic) =
     (case all_check_positive_scalar (map snd dic) of
        Inl e \<Rightarrow> Inl e
      | Inr c \<Rightarrow>
          if length dic = 4 \<and> set (map fst dic) = valid_keys \<and> c
          then Inr dic else Inl ValueError)"

text \<open>\<^verbatim>\<open>pad["pad_top"]\<close>: a missing key raises \<^verbatim>\<open>KeyError\<close>.\<close>

definition getitem :: "(string \<times> int) list \<Rightarrow> string \<Rightarrow> error + int" where
  "getitem dic k = (case map_of dic k of None \<Rightarrow> Inl (KeyError k) | Some v \<Rightarrow> Inr v)"

text \<open>
  \<^verbatim>\<open>Cropper.__init__\<close> (lines 137-174) on integer \<^verbatim>\<open>width\<close>, \<^verbatim>\<open>height\<close> and
  \<^verbatim>\<open>face_percent\<close>. The last argument stands for the path of the cascade file, which the
  constructor reads from the installed package.
\<close>

definition Cropper_init ::
  "int \<Rightarrow> int \<Rightarrow> int \<Rightarrow> padding_arg \<Rightarrow> bool \<Rightarrow> bool \<Rightarrow> string \<Rightarrow> error + Cropper" where
  "Cropper_init width_arg height_arg face_percent_arg padding fix_gamma portrait_arg casc =
     bindE (check_positive_scalar height_arg) (\<lambda>hgt.
     bindE (check_positive_scalar width_arg) (\<lambda>wid.
     bindE (fdiv (of_int width_arg) (of_int height_arg)) (\<lambda>ar.
     if face_percent_arg > 100 then Inl ValueError else
     bindE (check_positive_scalar face_percent_arg) (\<lambda>fp.
     bindE (case padding of
              PadInt p \<Rightarrow>
                bindE (check_positive_scalar p) (\<lambda>pad. Inr (pad, pad, pad, pad))
            | _ \<Rightarrow>
                bindE (check_valid_pad_dict padding) (\<lambda>pad.
                bindE (getitem pad ''pad_top'') (\<lambda>pt.
                bindE (getitem pad ''pad_right'') (\<lambda>pr.
                bindE (getitem pad ''pad_bottom'') (\<lambda>pb.
                bindE (getitem pad ''pad_left'') (\<lambda>pl. Inr (pt, pr, pb, pl)))))))
       (\<lambda>(pt, pr, pb, pl).
          Inr \<lparr>height = hgt, width = wid, aspect_ratio = ar, gamma = fix_gamma,
               portrait = portrait_arg, face_percent = fp,
               pad_top = pt, pad_right = pr, pad_bottom = pb, pad_left = pl,
               casc_path = casc\<rparr>)))))"

section \<open>The one-dimensional expansions\<close>

text \<open>
  \<^verbatim>\<open>_expand_centered\<close> (lines 246-318). \<^verbatim>\<open>j\<close> is computed before the test on
  \<^verbatim>\<open>expected_width\<close>, so a zero \<^verbatim>\<open>face_percent\<close> raises in both modes.
\<close>

definition expand_centered ::
  "Cropper \<Rightarrow> int \<Rightarrow> int \<Rightarrow> int \<Rightarrow> int option \<Rightarrow> error + (int \<times> int \<times> bool)" where
  "expand_centered self x w imgw expected_width =
     (let i = py_int (of_int w / 2) in
      bindE (fdiv (of_int i) (of_int (face_percent self))) (\<lambda>q.
      let j = py_int q;
          center = x + i;
          h1 = center - j;
          h2 = center + j
      in case expected_width of
           Some ew \<Rightarrow>
             (let half = py_int (of_int ew / 2)
              in Inr (center - half, center + half, True))
         | None \<Rightarrow>
             (let (expectations_met, h1, h2) =
                    (if h1 < 0 then (False, 0, 2 * center) else (True, h1, h2));
                  (expectations_met, h1, h2) =
                    (if h2 > imgw then (False, 2 * center - imgw, imgw)
                     else (expectations_met, h1, h2))
              in Inr (h1, h2, expectations_met))))"

text \<open>
  \<^verbatim>\<open>_expand_portrait\<close> (lines 320-382). \<^verbatim>\<open>EYES_RATIO\<close> is imported from the package's
  constants and is the first argument here.
\<close>

definition expand_portrait :: "rat \<Rightarrow> int \<Rightarrow> int \<Rightarrow> int \<Rightarrow> int \<Rightarrow> int \<times> int \<times> bool" where
  "expand_portrait EYES_RATIO y h imgh expected_height =
     (let eye_height = y + py_int (EYES_RATIO * of_int h);
          third = py_int (of_int expected_height / 3);
          v1 = eye_height - 2 * third;
          v2 = eye_height + third;
          (expectations_met, v1, v2) =
            (if v1 < 0 then (False, 0, py_int (3 / 2 * of_int eye_height))
             else (True, v1, v2));
          (expectations_met, v1, v2) =
            (if v2 > imgh then (False, eye_height - 2 * (imgh - eye_height), imgh)
             else (expectations_met, v1, v2))
      in (v1, v2, expectations_met))"

section \<open>The orchestrator\<close>

text \<open>
  \<^verbatim>\<open>_crop_positions\<close> reads four names that are neither parameters nor locals of the
  method: \<^verbatim>\<open>padding\<close> (line 405), \<^verbatim>\<open>imgw\<close> and \<^verbatim>\<open>imgh\<close> (lines 414-426) and
  \<^verbatim>\<open>aspect_ratio\<close> (lines 435-469). Python looks such a name up in the module's globals
  when the line runs and raises \<^verbatim>\<open>NameError\<close> when it is unbound. The globals are
  explicit here, each name bound or not; \<open>autocrop_globals\<close> is the module as it is
  written, which binds none of them.
\<close>

record module_globals =
  g_padding :: "padding_arg option"
  g_imgw :: "int option"
  g_imgh :: "int option"
  g_aspect_ratio :: "rat option"

definition autocrop_globals :: module_globals where
  "autocrop_globals =
     \<lparr>g_padding = None, g_imgw = None, g_imgh = None, g_aspect_ratio = None\<rparr>"

definition lookup_global :: "string \<Rightarrow> 'a option \<Rightarrow> error + 'a" where
  "lookup_global name v = (case v of None \<Rightarrow> Inl (NameError name) | Some a \<Rightarrow> Inr a)"

text \<open>Truth value of a padding object in \<^verbatim>\<open>if padding:\<close>.\<close>

fun truthy :: "padding_arg \<Rightarrow> bool" where
  "truthy PadNone = False"
| "truthy (PadInt n) = (n \<noteq> 0)"
| "truthy (PadDict dic) = (dic \<noteq> [])"

datatype mode = Padded | Portrait | Centered

text \<open>The branch taken by lines 405-411.\<close>

definition crop_mode :: "module_globals \<Rightarrow> Cropper \<Rightarrow> error + mode" where
  "crop_mode g self =
     bindE (lookup_global ''padding'' (g_padding g)) (\<lambda>padding.
     if truthy padding then Inr Padded
     else
       let tall = (if width self > height self then True else False)
       in if tall \<and> portrait self then Inr Portrait else Inr Centered)"

text \<open>
  \<^verbatim>\<open>self._apply_padding()\<close> (line 407): the method is declared without parameters
  (line 241), so the bound call passes one argument too many and raises \<^verbatim>\<open>TypeError\<close>.
\<close>

definition apply_padding_call :: "error + int list" where
  "apply_padding_call = Inl TypeError"

text \<open>
  Lines 423-427: the second horizontal pass. \<^verbatim>\<open>expected_width = int()\<close> is \<open>0\<close>.
\<close>

definition second_pass ::
  "Cropper \<Rightarrow> int \<Rightarrow> int \<Rightarrow> int \<Rightarrow> int \<times> int \<times> bool \<Rightarrow> bool \<Rightarrow> error + (int \<times> int \<times> bool)" where
  "second_pass self x w imgw first use_face_percent_h =
     (if \<not> use_face_percent_h then
        (let expected_width = 0
         in expand_centered self x w imgw (Some expected_width))
      else Inr first)"

text \<open>Lines 412-429, the branch of portrait mode.\<close>

definition portrait_branch ::
  "module_globals \<Rightarrow> Cropper \<Rightarrow> rat \<Rightarrow> int \<Rightarrow> int \<Rightarrow> int \<Rightarrow> int \<Rightarrow> error + int list" where
  "portrait_branch g self EYES_RATIO x y w h =
     bindE (lookup_global ''imgw'' (g_imgw g)) (\<lambda>imgw.
     bindE (expand_centered self x w imgw None) (\<lambda>(h1, h2, use_face_percent_w).
     bindE (if \<not> use_face_percent_w
            then fdiv (of_int (h2 - h1)) (aspect_ratio self)
            else fdiv (of_int w) (aspect_ratio self)) (\<lambda>q.
     let expected_height = py_int q in
     bindE (lookup_global ''imgh'' (g_imgh g)) (\<lambda>imgh.
     let (v1, v2, use_face_percent_h) = expand_portrait EYES_RATIO y h imgh expected_height in
     bindE (second_pass self x w imgw (h1, h2, use_face_percent_w) use_face_percent_h)
       (\<lambda>(h1, h2, use_face_percent_w).
     if use_face_percent_w \<and> use_face_percent_h then Inr [h1, h2, v1, v2]
     else Inl AssertionError)))))"

text \<open>Lines 431-477, reached when neither of the two tests above holds.\<close>

definition centered_branch ::
  "module_globals \<Rightarrow> Cropper \<Rightarrow> int \<Rightarrow> int \<Rightarrow> int \<Rightarrow> int \<Rightarrow> int \<Rightarrow> int \<Rightarrow> error + int list" where
  "centered_branch g self img_height img_width x y w h =
     bindE (fdiv (of_int h * 100) (of_int (face_percent self))) (\<lambda>height_crop.
     bindE (lookup_global ''aspect_ratio'' (g_aspect_ratio g)) (\<lambda>aspect_ratio.
     let width_crop = aspect_ratio * height_crop;
         xpad = (width_crop - of_int w) / 2;
         ypad = (height_crop - of_int h) / 2;
         pl = of_int (pad_left self); pr = of_int (pad_right self);
         pt = of_int (pad_top self); pb = of_int (pad_bottom self) in
     bindE (fdiv (xpad * pl) (pl + pr)) (\<lambda>ql.
     bindE (fdiv (xpad * pr) (pl + pr)) (\<lambda>qr.
     bindE (fdiv (ypad * pt) (pt + pb)) (\<lambda>qt.
     bindE (fdiv (ypad * pb) (pt + pb)) (\<lambda>qb.
     let h1 = of_int x - ql;
         h2 = of_int x + of_int w + qr;
         v1 = of_int y - qt;
         v2 = of_int y + of_int h + qb in
     bindE (fdiv pl (pl + pr)) (\<lambda>left_pad_ratio.
     bindE (fdiv pl (pl + pr)) (\<lambda>right_pad_ratio.
     bindE (fdiv pt (pt + pb)) (\<lambda>top_pad_ratio.
     bindE (fdiv pb (pt + pb)) (\<lambda>bottom_pad_ratio.
     bindE (if h1 < 0 then fdiv \<bar>h1\<bar> left_pad_ratio else Inr 0) (\<lambda>delta_h.
     bindE (if h2 > of_int img_width
            then bindE (fdiv (h2 - of_int img_width) right_pad_ratio)
                   (\<lambda>d. Inr (max delta_h d))
            else Inr delta_h) (\<lambda>delta_h.
     bindE (if delta_h \<le> 0 then Inr 0 else fdiv delta_h aspect_ratio) (\<lambda>delta_v.
     bindE (if v1 < 0
            then bindE (fdiv \<bar>v1\<bar> top_pad_ratio) (\<lambda>d. Inr (max delta_v d))
            else Inr delta_v) (\<lambda>delta_v.
     bindE (if v2 > of_int img_height
            then bindE (fdiv (v2 - of_int img_height) bottom_pad_ratio)
                   (\<lambda>d. Inr (max delta_v d))
            else Inr delta_v) (\<lambda>delta_v.
     let delta_h = max delta_h (delta_v * aspect_ratio);
         h1 = h1 + delta_h * left_pad_ratio;
         h2 = h2 - delta_h * right_pad_ratio;
         v1 = v1 + delta_v * top_pad_ratio;
         v2 = v2 - delta_v * bottom_pad_ratio
     in Inr [py_int v1, py_int v2, py_int h1, py_int h2])))))))))))))))"

text \<open>\<^verbatim>\<open>_crop_positions\<close> (lines 384-477).\<close>

definition crop_positions ::
  "module_globals \<Rightarrow> Cropper \<Rightarrow> rat \<Rightarrow> int \<Rightarrow> int \<Rightarrow> int \<Rightarrow> int \<Rightarrow> int \<Rightarrow> int \<Rightarrow> error + int list" where
  "crop_positions g self EYES_RATIO img_height img_width x y w h =
     bindE (crop_mode g self) (\<lambda>m.
       case m of
         Padded \<Rightarrow> apply_padding_call
       | Portrait \<Rightarrow> portrait_branch g self EYES_RATIO x y w h
       | Centered \<Rightarrow> centered_branch g self img_height img_width x y w h)"

section \<open>The crop operation\<close>

text \<open>
  Python objects passed to \<^verbatim>\<open>crop\<close> or produced by the image loaders: \<^verbatim>\<open>None\<close>, a
  string, an integer (an object without \<^verbatim>\<open>shape\<close>), or an array with its shape and an
  identifier standing for its pixels.
\<close>

datatype pyobj = PyNone | PyStr string | PyInt int | NdArray "int list" nat

text \<open>\<^verbatim>\<open>image.shape\<close>: \<open>None\<close> when the attribute is missing (\<^verbatim>\<open>AttributeError\<close>).\<close>

fun shape_attr :: "pyobj \<Rightarrow> int list option" where
  "shape_attr (NdArray shp px) = Some shp"
| "shape_attr PyNone = None"
| "shape_attr (PyStr s) = None"
| "shape_attr (PyInt n) = None"

text \<open>
  The collaborators outside the repository: the constants of the package, the path and
  image libraries, the detector and the raster operations after the crop rectangle is
  known (slicing, resizing, gamma correction, channel order). \<open>cv2_cvtColor\<close> is
  \<open>None\<close> when OpenCV raises \<^verbatim>\<open>cv2.error\<close>, the exception that line 199 catches.
\<close>

record externals =
  EYES_RATIO :: rat
  CV2_FILETYPES :: "string list"
  PILLOW_FILETYPES :: "string list"
  splitext_lower :: "string \<Rightarrow> string"
  cv2_imread :: "string \<Rightarrow> pyobj"
  pil_open_asarray :: "string \<Rightarrow> error + pyobj"
  cv2_cvtColor :: "pyobj \<Rightarrow> pyobj option"
  minface_of :: "int \<Rightarrow> int \<Rightarrow> int"
  detectMultiScale :: "pyobj \<Rightarrow> int \<Rightarrow> (int \<times> int \<times> int \<times> int) list"
  raster :: "Cropper \<Rightarrow> pyobj \<Rightarrow> pyobj \<Rightarrow> int list \<Rightarrow> error + pyobj"

text \<open>\<^verbatim>\<open>open_file\<close> (lines 82-93).\<close>

definition open_file :: "externals \<Rightarrow> string \<Rightarrow> error + pyobj" where
  "open_file ext input_filename =
     (let extension = splitext_lower ext input_filename
      in if extension \<in> set (CV2_FILETYPES ext) then Inr (cv2_imread ext input_filename)
         else if extension \<in> set (PILLOW_FILETYPES ext) then pil_open_asarray ext input_filename
         else Inr PyNone)"

text \<open>\<^verbatim>\<open>isinstance(path_or_array, str)\<close> (line 191).\<close>

fun isinstance_str :: "pyobj \<Rightarrow> bool" where
  "isinstance_str (PyStr s) = True"
| "isinstance_str PyNone = False"
| "isinstance_str (PyInt n) = False"
| "isinstance_str (NdArray shp px) = False"

text \<open>Lines 191-194: the image comes from the file when the argument is a string.\<close>

fun load_image :: "externals \<Rightarrow> pyobj \<Rightarrow> error + pyobj" where
  "load_image ext (PyStr p) = open_file ext p"
| "load_image ext PyNone = Inr PyNone"
| "load_image ext (PyInt n) = Inr (PyInt n)"
| "load_image ext (NdArray shp px) = Inr (NdArray shp px)"

text \<open>Lines 197-200: the grey image, or the image itself when the conversion fails.\<close>

definition to_gray :: "externals \<Rightarrow> pyobj \<Rightarrow> pyobj" where
  "to_gray ext img = (case cv2_cvtColor ext img of Some gr \<Rightarrow> gr | None \<Rightarrow> img)"

text \<open>
  \<^verbatim>\<open>Cropper.crop\<close> (lines 176-239). \<^verbatim>\<open>img_height, img_width = image.shape[:2]\<close>
  raises \<^verbatim>\<open>ValueError\<close> when the shape has fewer than two entries.
\<close>

definition crop :: "externals \<Rightarrow> module_globals \<Rightarrow> Cropper \<Rightarrow> pyobj \<Rightarrow> error + pyobj" where
  "crop ext g self path_or_array =
     bindE (load_image ext path_or_array) (\<lambda>image.
     let gray = to_gray ext image
     in case shape_attr image of
          None \<Rightarrow> Inl ImageReadError
        | Some shp \<Rightarrow>
            (case take 2 shp of
               [img_height, img_width] \<Rightarrow>
                 (let minface = minface_of ext img_height img_width;
                      faces = detectMultiScale ext gray minface
                  in if length faces = 0 then Inr PyNone
                     else
                       (let (x, y, w, h) = last faces
                        in bindE (crop_positions g self (EYES_RATIO ext)
                                    img_height img_width x y w h)
                             (\<lambda>pos. raster ext self image gray pos)))
             | _ \<Rightarrow> Inl ValueError))"

text \<open>
  The instance that \<^verbatim>\<open>Cropper(width=500, height=500, face_percent=50, padding=50)\<close>
  builds, used for the reference scenarios.
\<close>

definition scenario_cropper :: Cropper where
  "scenario_cropper =
     \<lparr>height = 500, width = 500, aspect_ratio = 1, gamma = True, portrait = True,
      face_percent = 50, pad_top = 50, pad_right = 50, pad_bottom = 50, pad_left = 50,
      casc_path = ''haarcascade_frontalface_default.xml''\<rparr>"

text \<open>
  Collaborators for the reference scenarios: loaders that decode nothing and a detector
  that finds no face.
\<close>

definition stub_externals :: externals where
  "stub_externals =
     \<lparr>EYES_RATIO = 21 / 50,
      CV2_FILETYPES = [''.jpg''],
      PILLOW_FILETYPES = [''.png''],
      splitext_lower = dropWhile (\<lambda>c. c \<noteq> CHR ''.''),
      cv2_imread = (\<lambda>f. PyNone),
      pil_open_asarray = (\<lambda>f. Inl OSError),
      cv2_cvtColor = (\<lambda>a. None),
      minface_of = (\<lambda>h w. 1),
      detectMultiScale = (\<lambda>gr m. []),
      raster = (\<lambda>c a gr pos. Inr a)\<rparr>"

section \<open>Helper facts\<close>

lemma scenario_cropper_constructed:
  "Cropper_init 500 500 50 (PadInt 50) True True ''haarcascade_frontalface_default.xml''
     = Inr scenario_cropper"
  by (simp add: Cropper_init_def check_positive_scalar_def fdiv_def bindE_def
      scenario_cropper_def)

lemma crop_positions_unbound_padding:
  "crop_positions autocrop_globals self er img_height img_width x y w h
     = Inl (NameError ''padding'')"
  by (simp add: crop_positions_def crop_mode_def lookup_global_def autocrop_globals_def
      bindE_def)

lemma py_int_of_int [simp]: "py_int (of_int n) = n"
  by (simp add: py_int_def)

lemma py_int_zero [simp]: "py_int 0 = 0"
  by (simp add: py_int_def)

lemma py_int_numeral [simp]: "py_int (numeral a) = numeral a"
  by (simp add: py_int_def)

lemma py_int_numeral_quotient [simp]:
  "py_int (numeral a / numeral b) = numeral a div numeral b"
proof -
  have "\<lfloor>(of_int (numeral a) :: rat) / of_int (numeral b)\<rfloor> = numeral a div numeral b"
    by (rule floor_divide_of_int_eq)
  then show ?thesis by (simp add: py_int_def)
qed

lemma py_int_neg_numeral_quotient [simp]:
  "py_int (- (numeral a / numeral b)) = - (numeral a div numeral b)"
proof -
  have "\<lfloor>(of_int (numeral a) :: rat) / of_int (numeral b)\<rfloor> = numeral a div numeral b"
    by (rule floor_divide_of_int_eq)
  then show ?thesis by (simp add: py_int_def ceiling_def)
qed

lemma py_int_half_twice: "2 * py_int (of_int n / 2) = n \<longleftrightarrow> even n"
proof (cases "even n")
  case True
  then obtain k where k: "n = 2 * k" by (auto elim: evenE)
  have "py_int (of_int n / 2) = k"
    unfolding k py_int_def by simp
  with True k show ?thesis by simp
next
  case False
  have "even (2 * py_int (of_int n / 2))" by simp
  with False show ?thesis by metis
qed

lemma all_check_positive_scalar_eq:
  "all_check_positive_scalar ns
     = (if list_all (\<lambda>n. 0 < n) ns then Inr True else Inl ValueError)"
  by (induction ns) (auto simp add: check_positive_scalar_def)

lemma getitem_valid_key:
  "k \<in> set (map fst dic) \<Longrightarrow> \<exists>v. getitem dic k = Inr v"
  by (cases "map_of dic k") (auto simp add: getitem_def map_of_eq_None_iff)

text \<open>
  With an integer padding the constructor succeeds exactly on positive sizes, a
  \<^verbatim>\<open>face_percent\<close> in \<open>(0, 100]\<close> and a positive padding; with a dictionary, exactly
  when moreover the keys are the four valid ones and every value is positive. Every
  failure with a supplied padding is a \<^verbatim>\<open>ValueError\<close>.
\<close>

lemma Cropper_init_int_padding:
  "(\<exists>c. Cropper_init wd hg fp (PadInt p) fg po casc = Inr c)
     \<longleftrightarrow> 0 < wd \<and> 0 < hg \<and> 0 < fp \<and> fp \<le> 100 \<and> 0 < p"
  by (auto simp add: Cropper_init_def check_positive_scalar_def fdiv_def bindE_def)

lemma Cropper_init_dict_padding:
  "(\<exists>c. Cropper_init wd hg fp (PadDict dic) fg po casc = Inr c)
     \<longleftrightarrow> 0 < wd \<and> 0 < hg \<and> 0 < fp \<and> fp \<le> 100
          \<and> list_all (\<lambda>n. 0 < n) (map snd dic) \<and> length dic = 4
          \<and> set (map fst dic) = valid_keys"
proof (cases "set (map fst dic) = valid_keys")
  case True
  then have "''pad_top'' \<in> set (map fst dic)" "''pad_right'' \<in> set (map fst dic)"
    "''pad_bottom'' \<in> set (map fst dic)" "''pad_left'' \<in> set (map fst dic)"
    by (simp_all add: valid_keys_def)
  then obtain a b c d where
    "getitem dic ''pad_top'' = Inr a" "getitem dic ''pad_right'' = Inr b"
    "getitem dic ''pad_bottom'' = Inr c" "getitem dic ''pad_left'' = Inr d"
    using getitem_valid_key by metis
  then show ?thesis
    by (auto simp add: Cropper_init_def check_positive_scalar_def fdiv_def bindE_def
        all_check_positive_scalar_eq)
next
  case False
  then show ?thesis
    by (auto simp add: Cropper_init_def check_positive_scalar_def fdiv_def bindE_def
        all_check_positive_scalar_eq)
qed

lemma Cropper_init_supplied_padding_error:
  assumes "padding \<noteq> PadNone"
    and "Cropper_init wd hg fp padding fg po casc = Inl e"
  shows "e = ValueError"
proof (cases padding)
  case PadNone
  with assms show ?thesis by simp
next
  case (PadInt p)
  with assms show ?thesis
    by (auto simp add: Cropper_init_def check_positive_scalar_def fdiv_def bindE_def
        split: if_splits)
next
  case (PadDict dic)
  show ?thesis
  proof (cases "set (map fst dic) = valid_keys")
    case True
    then have "''pad_top'' \<in> set (map fst dic)" "''pad_right'' \<in> set (map fst dic)"
      "''pad_bottom'' \<in> set (map fst dic)" "''pad_left'' \<in> set (map fst dic)"
      by (simp_all add: valid_keys_def)
    then obtain a b c d where
      "getitem dic ''pad_top'' = Inr a" "getitem dic ''pad_right'' = Inr b"
      "getitem dic ''pad_bottom'' = Inr c" "getitem dic ''pad_left'' = Inr d"
      using getitem_valid_key by metis
    with assms PadDict show ?thesis
      by (auto simp add: Cropper_init_def check_positive_scalar_def fdiv_def bindE_def
          all_check_positive_scalar_eq split: if_splits)
  next
    case False
    with assms PadDict show ?thesis
      by (auto simp add: Cropper_init_def check_positive_scalar_def fdiv_def bindE_def
          all_check_positive_scalar_eq split: if_splits)
  qed
qed

section \<open>The claims\<close>

text \<open>
  C1 (containment). The claim: for every valid image extent, face box and configuration,
  \<^verbatim>\<open>_crop_positions\<close> returns a rectangle with \<open>0 \<le> top < bottom \<le> imageHeight\<close> and
  \<open>0 \<le> left < right \<le> imageWidth\<close>. In the module as written the method returns no
  rectangle: at Scenario A (image 1000 x 1000, face box 400, 400, 200, 200, a validly
  constructed instance) line 405 raises \<^verbatim>\<open>NameError\<close> on the unbound name
  \<^verbatim>\<open>padding\<close>.
\<close>

theorem crop_positions_scenario_A_NameError:
  "crop_positions autocrop_globals scenario_cropper (21 / 50) 1000 1000 400 400 200 200
     = Inl (NameError ''padding'')"
  by (rule crop_positions_unbound_padding)

text \<open>
  C2 (mode selection). The claim: Padded exactly when padding is configured, otherwise
  Portrait exactly when the portrait flag is set and the target is taller than wide,
  otherwise Centered. On the instance built with \<^verbatim>\<open>padding=50\<close> the module selects no
  branch and raises \<^verbatim>\<open>NameError\<close>. Were the name \<^verbatim>\<open>padding\<close> bound to a false value,
  line 410 would still test \<^verbatim>\<open>width > height\<close>: a 300 x 500 target with the portrait flag
  goes to the centered branch and a 500 x 300 target to the portrait branch.
\<close>

theorem crop_mode_selection_failing:
  "crop_mode autocrop_globals scenario_cropper = Inl (NameError ''padding'')
   \<and> crop_mode (autocrop_globals\<lparr>g_padding := Some PadNone\<rparr>)
         (scenario_cropper\<lparr>width := 300, height := 500, aspect_ratio := 3 / 5\<rparr>)
       = Inr Centered
   \<and> crop_mode (autocrop_globals\<lparr>g_padding := Some PadNone\<rparr>)
         (scenario_cropper\<lparr>width := 500, height := 300, aspect_ratio := 5 / 3\<rparr>)
       = Inr Portrait"
  by (simp add: crop_mode_def lookup_global_def autocrop_globals_def bindE_def
      scenario_cropper_def)

text \<open>
  C3 (two-pass reconciliation). The claim: when the vertical pass misses its expectation,
  the horizontal expansion is run again with the width derived from the achieved height.
  Line 424 sets \<^verbatim>\<open>expected_width = int()\<close>, which is \<open>0\<close>. For a 600 x 500 target and
  a face box at the top edge (x = 400, y = 0, w = h = 200) of a 1000 x 1000 image, the
  vertical pass returns \<open>(0, 126)\<close> without meeting its expectation, the second pass
  returns the empty interval \<open>(500, 500)\<close> instead of one of width \<open>126 * 6 / 5\<close>, and the
  assertion of line 428 then fails because the vertical flag is still false. This needs
  \<^verbatim>\<open>padding\<close>, \<^verbatim>\<open>imgw\<close> and \<^verbatim>\<open>imgh\<close> bound; in the module as written the call raises
  \<^verbatim>\<open>NameError\<close> before any pass.
\<close>

theorem second_pass_zero_width:
  "second_pass (scenario_cropper\<lparr>width := 600, aspect_ratio := 6 / 5\<rparr>)
       400 200 1000 (498, 502, True) False
     = Inr (500, 500, True)
   \<and> expand_portrait (21 / 50) 0 200 1000 166 = (0, 126, False)
   \<and> portrait_branch
         \<lparr>g_padding = Some PadNone, g_imgw = Some 1000, g_imgh = Some 1000,
          g_aspect_ratio = Some (6 / 5)\<rparr>
         (scenario_cropper\<lparr>width := 600, aspect_ratio := 6 / 5\<rparr>) (21 / 50) 400 0 200 200
       = Inl AssertionError
   \<and> crop_positions autocrop_globals
         (scenario_cropper\<lparr>width := 600, aspect_ratio := 6 / 5\<rparr>) (21 / 50)
         1000 1000 400 0 200 200
       = Inl (NameError ''padding'')"
  by (simp add: second_pass_def expand_centered_def expand_portrait_def portrait_branch_def
      lookup_global_def fdiv_def bindE_def scenario_cropper_def Let_def
      crop_positions_unbound_padding)

text \<open>
  C4 (no face). When the argument yields an image with a height and a width and the
  detector returns no box on it, \<^verbatim>\<open>crop\<close> returns \<^verbatim>\<open>None\<close>: no exception and no
  rectangle. The result is the same under every binding of the module's globals, also
  under \<open>autocrop_globals\<close>, where any call of \<^verbatim>\<open>_crop_positions\<close> would raise: the
  geometry is not reached.
\<close>

theorem crop_no_face_returns_None:
  assumes "load_image ext path_or_array = Inr img"
    and "shape_attr img = Some (img_height # img_width # rest)"
    and "detectMultiScale ext (to_gray ext img) (minface_of ext img_height img_width) = []"
  shows "crop ext g self path_or_array = Inr PyNone"
  using assms by (simp add: crop_def bindE_def)

theorem crop_no_face_returns_None_witness:
  "load_image stub_externals (NdArray [1000, 1000, 3] 0) = Inr (NdArray [1000, 1000, 3] 0)
   \<and> shape_attr (NdArray [1000, 1000, 3] 0) = Some (1000 # 1000 # [3])
   \<and> detectMultiScale stub_externals (to_gray stub_externals (NdArray [1000, 1000, 3] 0))
        (minface_of stub_externals 1000 1000) = []
   \<and> crop stub_externals autocrop_globals scenario_cropper (NdArray [1000, 1000, 3] 0)
       = Inr PyNone"
proof -
  have a: "load_image stub_externals (NdArray [1000, 1000, 3] 0)
             = Inr (NdArray [1000, 1000, 3] 0)"
    by simp
  have b: "shape_attr (NdArray [1000, 1000, 3] 0) = Some (1000 # 1000 # [3])"
    by simp
  have c: "detectMultiScale stub_externals (to_gray stub_externals (NdArray [1000, 1000, 3] 0))
             (minface_of stub_externals 1000 1000) = []"
    by (simp add: stub_externals_def)
  from crop_no_face_returns_None [OF a b c] a b c show ?thesis by blast
qed

text \<open>
  C5 (Scenario A). The claim: with \<open>facePercent = 50\<close> the candidate interval around the
  face box 400, 400, 200, 200 is about \<open>[300, 700]\<close> on each axis. The centered expansion
  divides the half-width by \<^verbatim>\<open>face_percent\<close> itself (line 296): \<open>j = int(100 / 50) = 2\<close>
  and the interval is \<open>[498, 502]\<close>, inside the image and with the flag true, but four
  pixels wide and inside the face. The centered branch, which scales by
  \<open>100 / face_percent\<close> (line 434), would give \<open>[350, 650]\<close> if \<^verbatim>\<open>aspect_ratio\<close> were
  bound to 1.
\<close>

theorem scenario_A_interval:
  "expand_centered scenario_cropper 400 200 1000 None = Inr (498, 502, True)
   \<and> centered_branch (autocrop_globals\<lparr>g_aspect_ratio := Some 1\<rparr>) scenario_cropper
         1000 1000 400 400 200 200
       = Inr [350, 650, 350, 650]"
  by (simp add: expand_centered_def centered_branch_def lookup_global_def fdiv_def bindE_def
      scenario_cropper_def autocrop_globals_def)

text \<open>
  C6 (eager validation). The claim: construction succeeds whenever the sizes are positive,
  \<^verbatim>\<open>face_percent\<close> is in \<open>(0, 100]\<close> and the supplied padding is well formed, in
  particular when no padding is supplied. With the default \<^verbatim>\<open>padding=None\<close> the
  constructor passes \<^verbatim>\<open>None\<close> to \<^verbatim>\<open>check_valid_pad_dict\<close>, where \<^verbatim>\<open>len(dic)\<close> raises
  \<^verbatim>\<open>TypeError\<close>.
\<close>

theorem Cropper_init_default_padding_TypeError:
  "Cropper_init 500 500 50 PadNone True True casc = Inl TypeError"
  by (simp add: Cropper_init_def check_positive_scalar_def fdiv_def bindE_def)

text \<open>
  C7 (no-overflow idempotence). With \<open>center = x + int(w / 2)\<close> and
  \<open>margin = int(int(w / 2) / face_percent)\<close>, if \<open>[center - margin, center + margin]\<close>
  lies within \<open>[0, imgw]\<close>, the centered expansion (without \<^verbatim>\<open>expected_width\<close>) returns
  that interval and reports that the expectation is met.
\<close>

theorem expand_centered_no_overflow:
  assumes "face_percent self \<noteq> 0"
    and "center = x + py_int (of_int w / 2)"
    and "margin = py_int (of_int (py_int (of_int w / 2)) / of_int (face_percent self))"
    and "0 \<le> center - margin" and "center + margin \<le> imgw"
  shows "expand_centered self x w imgw None = Inr (center - margin, center + margin, True)"
  using assms by (simp add: expand_centered_def fdiv_def bindE_def Let_def)

theorem expand_centered_no_overflow_witness:
  "face_percent scenario_cropper \<noteq> 0
   \<and> (500::int) = 400 + py_int (of_int 200 / 2)
   \<and> (2::int) = py_int (of_int (py_int (of_int 200 / 2)) / of_int (face_percent scenario_cropper))
   \<and> (0::int) \<le> 500 - 2 \<and> (500::int) + 2 \<le> 1000
   \<and> expand_centered scenario_cropper 400 200 1000 None = Inr (500 - 2, 500 + 2, True)"
proof -
  have a: "face_percent scenario_cropper \<noteq> 0" by (simp add: scenario_cropper_def)
  have b: "(500::int) = 400 + py_int (of_int 200 / 2)" by simp
  have c: "(2::int) = py_int (of_int (py_int (of_int 200 / 2))
                              / of_int (face_percent scenario_cropper))"
    by (simp add: scenario_cropper_def)
  have d: "(0::int) \<le> 500 - 2" by simp
  have e: "(500::int) + 2 \<le> 1000" by simp
  from expand_centered_no_overflow [OF a b c d e] a b c d e show ?thesis by blast
qed

text \<open>
  C8 (expected width), as stated: the window has exactly the expected width. For an odd
  \<^verbatim>\<open>expected_width\<close> the halves are truncated: with \<open>expected_width = 5\<close> the window is
  \<open>(498, 502)\<close>, of width 4.
\<close>

theorem expand_centered_odd_width_counterexample:
  "expand_centered scenario_cropper 400 200 1000 (Some 5) = Inr (498, 502, True)
   \<and> (502::int) - 498 \<noteq> 5"
  by (simp add: expand_centered_def fdiv_def bindE_def scenario_cropper_def Let_def)

text \<open>
  C8, amended: with an \<^verbatim>\<open>expected_width\<close> supplied (and a non-zero \<^verbatim>\<open>face_percent\<close>, as
  every constructed instance has) the result is the window
  \<open>(center - int(expected_width / 2), center + int(expected_width / 2))\<close> around
  \<open>center = x + int(w / 2)\<close>, with the flag true. It depends neither on \<^verbatim>\<open>face_percent\<close>
  nor on the image extent (no clamping). Its width is \<open>2 * int(expected_width / 2)\<close>, which
  is \<^verbatim>\<open>expected_width\<close> exactly when that is even.
\<close>

theorem expand_centered_expected_width:
  assumes "face_percent self \<noteq> 0"
  shows "expand_centered self x w imgw (Some ew)
           = Inr (x + py_int (of_int w / 2) - py_int (of_int ew / 2),
                  x + py_int (of_int w / 2) + py_int (of_int ew / 2), True)
         \<and> (x + py_int (of_int w / 2) + py_int (of_int ew / 2))
             - (x + py_int (of_int w / 2) - py_int (of_int ew / 2))
           = 2 * py_int (of_int ew / 2)
         \<and> (2 * py_int (of_int ew / 2) = ew \<longleftrightarrow> even ew)"
  using assms py_int_half_twice [of ew]
  by (simp add: expand_centered_def fdiv_def bindE_def Let_def)

theorem expand_centered_expected_width_witness:
  "face_percent scenario_cropper \<noteq> 0
   \<and> expand_centered scenario_cropper 0 100 20 (Some 400) = Inr (- 150, 250, True)"
proof -
  have a: "face_percent scenario_cropper \<noteq> 0" by (simp add: scenario_cropper_def)
  from expand_centered_expected_width [OF a, of 0 100 20 400] a show ?thesis
    by simp
qed

text \<open>
  C9 (portrait expansion). With \<open>eyeLine = y + int(EYES_RATIO * h)\<close> and
  \<open>third = int(expected_height / 3)\<close>, the candidate interval is
  \<open>[eyeLine - 2 * third, eyeLine + third]\<close>. If its lower end is negative, the interval
  becomes \<open>[0, int(1.5 * eyeLine)]\<close>; if the upper end (after that step) exceeds the image
  height, the interval becomes \<open>[eyeLine - 2 * (imgh - eyeLine), imgh]\<close>. The flag is
  false exactly when at least one of the two tests fires.
\<close>

theorem expand_portrait_algorithm:
  "expand_portrait er y h imgh expected_height =
     (let eyeLine = y + py_int (er * of_int h);
          third = py_int (of_int expected_height / 3);
          lo = eyeLine - 2 * third;
          hi = eyeLine + third;
          low_fires = (lo < 0);
          hi1 = (if low_fires then py_int (3 / 2 * of_int eyeLine) else hi);
          high_fires = (hi1 > imgh)
      in (if high_fires then eyeLine - 2 * (imgh - eyeLine) else if low_fires then 0 else lo,
          if high_fires then imgh else hi1,
          \<not> (low_fires \<or> high_fires)))"
  by (simp add: expand_portrait_def Let_def)

text \<open>
  C10 (unreadable input). If \<^verbatim>\<open>crop\<close> is given a path for which \<^verbatim>\<open>open_file\<close> returns
  \<^verbatim>\<open>None\<close>, or an argument that is not a string and has no \<^verbatim>\<open>shape\<close>, it raises
  \<^verbatim>\<open>ImageReadError\<close>, whose base class is \<^verbatim>\<open>BaseException\<close>, so that
  \<^verbatim>\<open>except Exception\<close> does not catch it; it does not return \<^verbatim>\<open>None\<close>.
\<close>

theorem crop_unreadable_raises_ImageReadError:
  "(open_file ext p = Inr PyNone \<longrightarrow> crop ext g self (PyStr p) = Inl ImageReadError)
   \<and> (\<not> isinstance_str a \<and> shape_attr a = None
        \<longrightarrow> crop ext g self a = Inl ImageReadError)
   \<and> error_superclass ImageReadError = BaseException_class
   \<and> \<not> caught_by_except_Exception ImageReadError
   \<and> Inl ImageReadError \<noteq> (Inr PyNone :: error + pyobj)"
proof -
  have 1: "open_file ext p = Inr PyNone \<longrightarrow> crop ext g self (PyStr p) = Inl ImageReadError"
    by (simp add: crop_def bindE_def)
  have 2: "\<not> isinstance_str a \<and> shape_attr a = None
             \<longrightarrow> crop ext g self a = Inl ImageReadError"
    by (cases a) (simp_all add: crop_def bindE_def)
  show ?thesis using 1 2 by (simp add: caught_by_except_Exception_def)
qed

theorem crop_unreadable_raises_ImageReadError_witness:
  "open_file stub_externals ''notes.txt'' = Inr PyNone
   \<and> crop stub_externals autocrop_globals scenario_cropper (PyStr ''notes.txt'')
       = Inl ImageReadError
   \<and> \<not> isinstance_str (PyInt 7) \<and> shape_attr (PyInt 7) = None
   \<and> crop stub_externals autocrop_globals scenario_cropper (PyInt 7) = Inl ImageReadError"
proof -
  have a: "open_file stub_externals ''notes.txt'' = Inr PyNone"
    by (simp add: open_file_def stub_externals_def)
  have b: "\<not> isinstance_str (PyInt 7) \<and> shape_attr (PyInt 7) = None" by simp
  from crop_unreadable_raises_ImageReadError
         [of stub_externals "''notes.txt''" autocrop_globals scenario_cropper "PyInt 7"]
       a b
  show ?thesis by blast
qed

end
